theory Spec2Isabelle
  imports Main
begin

section \<open>Data model of the image-fusion page (src/assets/App.tsx)\<close>

text \<open>
  An inline-data object \<open>{ data, mimeType }\<close>. In a request the \<open>data\<close> field is the
  \<open>base64\<close> field of an image slot, which JavaScript may leave \<open>undefined\<close> (see
  \<open>handleImageChange\<close>), so there it is a \<open>string option\<close>; in a response it is a string.
\<close>

record 'd blob =
  data :: 'd
  mimeType :: string

text \<open>
  The state type of an image slot, \<open>{ base64: string; mimeType: string }\<close>. The value of
  \<open>base64\<close> is \<open>split(',')[1]\<close> of a data URL; \<open>None\<close> is JavaScript's \<open>undefined\<close>, which
  that index yields when the string has no comma.
\<close>

record image_payload =
  base64 :: "string option"
  mimeType :: string

text \<open>The six \<open>useState\<close> variables of the component \<open>App\<close> (lines 52-57).\<close>

record app_state =
  image1 :: "image_payload option"
  image2 :: "image_payload option"
  selectedAction :: string
  generatedImage :: "string option"
  isLoading :: bool
  error :: "string option"

definition init_state :: app_state where
  "init_state =
     \<lparr>image1 = None, image2 = None, selectedAction = ''shaking hands'',
      generatedImage = None, isLoading = False, error = None\<rparr>"

text \<open>The \<open>value\<close> attributes of the three \<open>option\<close> elements (lines 182-184).\<close>

definition action_options :: "string list" where
  "action_options = [''shaking hands'', ''hugging each other'', ''saluting each other'']"

text \<open>
  JavaScript truthiness of a value that is a string or \<open>undefined\<close>/\<open>null\<close>:
  \<open>undefined\<close>, \<open>null\<close> and the empty string are falsy.
\<close>

definition truthy :: "string option \<Rightarrow> bool" where
  "truthy v = (case v of None \<Rightarrow> False | Some str \<Rightarrow> str \<noteq> [])"

text \<open>\<open>process.env\<close>, of which the page reads \<open>API_KEY\<close> only.\<close>

record env =
  API_KEY :: "string option"

subsection \<open>The generation request\<close>

text \<open>
  A request part is either the object built by \<open>fileToGenerativePart\<close> or \<open>{ text: prompt }\<close>.
  \<open>modality\<close> is the SDK's enumeration \<open>Modality\<close>.
\<close>

datatype request_part = InlineData "string option blob" | Text string

datatype modality = MODALITY_UNSPECIFIED | TEXT | IMAGE | AUDIO

record request =
  model :: string
  contents_parts :: "request_part list"
  config_responseModalities :: "modality list"

definition fileToGenerativePart :: "image_payload \<Rightarrow> request_part" where
  "fileToGenerativePart file =
     InlineData \<lparr>data = base64 file, blob.mimeType = image_payload.mimeType file\<rparr>"

definition prompt_prefix :: string where
  "prompt_prefix = ''From the two images provided, create a new photorealistic image where the person from the first image and the person from the second image are ''"

definition prompt_suffix :: string where
  "prompt_suffix = ''. The background should be neutral and the interaction between the two people should look natural and believable.''"

text \<open>The template literal of line 102.\<close>

definition prompt :: "string \<Rightarrow> string" where
  "prompt action = prompt_prefix @ action @ prompt_suffix"

subsection \<open>The generation response\<close>

text \<open>
  Modelled from the spec: the SDK's response type is not part of the repository. The spec
  gives a response as a list of candidates, each a list of content parts, where an
  image-bearing part carries \<open>{ data: base64 string, mimeType: string }\<close>. The optional
  chaining of line 122 shows which levels may be absent: \<open>candidates\<close>, its first element,
  \<open>content\<close> and \<open>parts\<close>. A part without \<open>inlineData\<close> may carry text.
\<close>

record part =
  inlineData :: "string blob option"
  text' :: "string option"

record content =
  parts :: "part list option"

record candidate =
  content :: "content option"

record response =
  candidates :: "candidate list option"

text \<open>
  How the awaited call ends: the promise resolves with a response, or an exception with the
  given \<open>message\<close> is thrown inside the \<open>try\<close> block.
\<close>

datatype api_result = Resolves response | Rejects string

section \<open>Image intake: \<open>handleImageChange\<close> (lines 68-80)\<close>

text \<open>\<open>String.prototype.split(',')\<close>: the pieces between commas, at least one piece.\<close>

fun split_comma :: "string \<Rightarrow> string list" where
  "split_comma [] = [[]]"
| "split_comma (c # cs) =
     (if c = CHR '','' then [] # split_comma cs
      else (case split_comma cs of
              [] \<Rightarrow> [[c]]
            | w # ws \<Rightarrow> (c # w) # ws))"

text \<open>Array index \<open>[1]\<close>: \<open>undefined\<close> when the array has fewer than two elements.\<close>

definition index1 :: "'a list \<Rightarrow> 'a option" where
  "index1 xs = (case xs of _ # y # _ \<Rightarrow> Some y | _ \<Rightarrow> None)"

text \<open>The setter passed to \<open>handleImageChange\<close>: \<open>setImage1\<close> or \<open>setImage2\<close>.\<close>

datatype slot = Slot1 | Slot2

fun setImageState :: "slot \<Rightarrow> image_payload option \<Rightarrow> app_state \<Rightarrow> app_state" where
  "setImageState Slot1 v s = s\<lparr>image1 := v\<rparr>"
| "setImageState Slot2 v s = s\<lparr>image2 := v\<rparr>"

text \<open>
  What the \<open>FileReader\<close> does with the file. \<open>Throws\<close>: \<open>new FileReader()\<close> or
  \<open>readAsDataURL\<close> throws inside the \<open>try\<close> block. \<open>LoadEnd r\<close>: the \<open>loadend\<close> event
  fires with \<open>reader.result = r\<close>; the result is a data URL after a successful read and
  \<open>null\<close> (\<open>None\<close>) after a failed one.
\<close>

datatype read_outcome = Throws | LoadEnd "string option"

datatype js_exception = TypeError

definition read_failure_message :: string where
  "read_failure_message = ''Failed to read image file.''"

text \<open>
  The state after the intake of one file, and the exception that escapes, if any.
  The \<open>catch\<close> block sets the error message. In the \<open>onloadend\<close> callback, which runs
  outside the \<open>try\<close> block, \<open>split\<close> on \<open>null\<close> throws a \<open>TypeError\<close> before any setter is
  called.
\<close>

definition handleImageChange ::
  "string \<Rightarrow> read_outcome \<Rightarrow> slot \<Rightarrow> app_state \<Rightarrow> app_state \<times> js_exception option" where
  "handleImageChange file_type outcome sl s =
     (case outcome of
        Throws \<Rightarrow> (s\<lparr>error := Some read_failure_message\<rparr>, None)
      | LoadEnd None \<Rightarrow> (s, Some TypeError)
      | LoadEnd (Some result) \<Rightarrow>
          (setImageState sl
             (Some \<lparr>base64 = index1 (split_comma result), mimeType = file_type\<rparr>) s,
           None))"

section \<open>Fusion request: \<open>handleGenerate\<close> (lines 82-143)\<close>

definition missing_inputs_message :: string where
  "missing_inputs_message = ''Please upload both images and select an action.''"

definition missing_key_message :: string where
  "missing_key_message =
     ''API_KEY environment variable not set. Please configure it to use the Gemini API.''"

definition no_image_message :: string where
  "no_image_message =
     ''The model did not return an image. Please try a different prompt or images.''"

text \<open>The condition of line 83.\<close>

definition missing_inputs :: "app_state \<Rightarrow> bool" where
  "missing_inputs s \<longleftrightarrow> image1 s = None \<or> image2 s = None \<or> selectedAction s = []"

text \<open>The argument of \<open>generateContent\<close> (lines 107-119).\<close>

definition build_request :: "image_payload \<Rightarrow> image_payload \<Rightarrow> string \<Rightarrow> request" where
  "build_request img1 img2 action =
     \<lparr>model = ''gemini-2.5-flash-image'',
      contents_parts =
        [fileToGenerativePart img1, fileToGenerativePart img2, Text (prompt action)],
      config_responseModalities = [IMAGE]\<rparr>"

text \<open>
  The part of \<open>handleGenerate\<close> that runs before the \<open>await\<close>: the two guards, the three
  setters of lines 95-97, and the request handed to the network (\<open>None\<close>: no call is made).
\<close>

definition handleGenerate_dispatch :: "env \<Rightarrow> app_state \<Rightarrow> app_state \<times> request option" where
  "handleGenerate_dispatch e s =
     (case image1 s of
        None \<Rightarrow> (s\<lparr>error := Some missing_inputs_message\<rparr>, None)
      | Some img1 \<Rightarrow>
         (case image2 s of
            None \<Rightarrow> (s\<lparr>error := Some missing_inputs_message\<rparr>, None)
          | Some img2 \<Rightarrow>
             if selectedAction s = [] then (s\<lparr>error := Some missing_inputs_message\<rparr>, None)
             else if \<not> truthy (API_KEY e) then (s\<lparr>error := Some missing_key_message\<rparr>, None)
             else (s\<lparr>isLoading := True, error := None, generatedImage := None\<rparr>,
                   Some (build_request img1 img2 (selectedAction s)))))"

text \<open>\<open>response.candidates?.[0]?.content?.parts ?? []\<close> (line 122).\<close>

definition response_parts :: "response \<Rightarrow> part list" where
  "response_parts r =
     (case candidates r of
        None \<Rightarrow> []
      | Some [] \<Rightarrow> []
      | Some (c # _) \<Rightarrow>
         (case content c of
            None \<Rightarrow> []
          | Some ct \<Rightarrow> (case parts ct of None \<Rightarrow> [] | Some ps \<Rightarrow> ps)))"

text \<open>The template literal of line 126.\<close>

definition image_url :: "string blob \<Rightarrow> string" where
  "image_url b = ''data:'' @ blob.mimeType b @ '';base64,'' @ data b"

text \<open>
  The \<open>for\<close> loop of lines 122-131: the URL passed to \<open>setGeneratedImage\<close>, or \<open>None\<close> when
  the loop ends with \<open>generatedImageFound\<close> still false.
\<close>

fun scan_parts :: "part list \<Rightarrow> string option" where
  "scan_parts [] = None"
| "scan_parts (p # ps) =
     (case inlineData p of
        Some b \<Rightarrow> Some (image_url b)
      | None \<Rightarrow> scan_parts ps)"

text \<open>
  The part of \<open>handleGenerate\<close> that runs once the call has settled: the scan, the
  \<open>catch\<close> block and the \<open>finally\<close> block, applied to the state of that moment.
\<close>

definition handleGenerate_settle :: "api_result \<Rightarrow> app_state \<Rightarrow> app_state" where
  "handleGenerate_settle r s =
     (case r of
        Resolves resp \<Rightarrow>
          (case scan_parts (response_parts resp) of
             Some url \<Rightarrow> s\<lparr>generatedImage := Some url, isLoading := False\<rparr>
           | None \<Rightarrow> s\<lparr>error := Some no_image_message, isLoading := False\<rparr>)
      | Rejects msg \<Rightarrow> s\<lparr>error := Some (''An error occurred: '' @ msg), isLoading := False\<rparr>)"

text \<open>
  One whole call of \<open>handleGenerate\<close> with no other event in between; \<open>backend\<close> is the
  generation service, consulted only when a request is dispatched.
\<close>

definition handleGenerate :: "env \<Rightarrow> (request \<Rightarrow> api_result) \<Rightarrow> app_state \<Rightarrow> app_state" where
  "handleGenerate e backend s =
     (case handleGenerate_dispatch e s of
        (s1, None) \<Rightarrow> s1
      | (s1, Some req) \<Rightarrow> handleGenerate_settle (backend req) s1)"

section \<open>The outcome shown to the user, and the events of a session\<close>

text \<open>
  The spec's outcome variants. \<open>outcomes\<close> lists the variants a state exhibits, after the
  three conditional blocks of the result section (lines 209-231): the spinner for
  \<open>isLoading\<close>, the error banner for \<open>error\<close>, the image for \<open>generatedImage\<close>; a state
  that exhibits none of them is idle.
\<close>

datatype outcome = Idle | Loading | Success string | Failure string

definition outcomes :: "app_state \<Rightarrow> outcome list" where
  "outcomes s =
     (let shown =
            (if isLoading s then [Loading] else []) @
            (case generatedImage s of None \<Rightarrow> [] | Some url \<Rightarrow> [Success url]) @
            (case error s of None \<Rightarrow> [] | Some msg \<Rightarrow> [Failure msg])
      in if shown = [] then [Idle] else shown)"

text \<open>The \<open>disabled\<close> attribute of the button (line 189).\<close>

definition generate_disabled :: "app_state \<Rightarrow> bool" where
  "generate_disabled s \<longleftrightarrow> isLoading s \<or> image1 s = None \<or> image2 s = None"

text \<open>
  The events of a session: a file chosen for a slot (with the file's type and what the
  reader does), an option chosen in the select element, a click on the button, and the
  settling of the call in flight.
\<close>

datatype event =
    ImageChange slot string read_outcome
  | SelectAction string
  | ClickGenerate
  | Settle api_result

text \<open>
  The state after an event, \<open>None\<close> when the event cannot happen: the select element
  offers the three options only, a disabled button does not fire, and a call settles only
  while one is in flight, which is while \<open>isLoading\<close> holds.
\<close>

fun apply_event :: "env \<Rightarrow> event \<Rightarrow> app_state \<Rightarrow> app_state option" where
  "apply_event e (ImageChange sl file_type outcome) s =
     Some (fst (handleImageChange file_type outcome sl s))"
| "apply_event e (SelectAction v) s =
     (if v \<in> set action_options then Some (s\<lparr>selectedAction := v\<rparr>) else None)"
| "apply_event e ClickGenerate s =
     (if generate_disabled s then None else Some (fst (handleGenerate_dispatch e s)))"
| "apply_event e (Settle r) s =
     (if isLoading s then Some (handleGenerate_settle r s) else None)"

fun run :: "env \<Rightarrow> event list \<Rightarrow> app_state \<Rightarrow> app_state option" where
  "run e [] s = Some s"
| "run e (ev # evs) s =
     (case apply_event e ev s of None \<Rightarrow> None | Some s' \<Rightarrow> run e evs s')"

text \<open>A state is reachable when some sequence of events leads to it from the initial state.\<close>

definition reachable :: "env \<Rightarrow> app_state \<Rightarrow> bool" where
  "reachable e s \<longleftrightarrow> (\<exists>evs. run e evs init_state = Some s)"

section \<open>Auxiliary definitions for the proofs\<close>

text \<open>
  The parts of one candidate and of all candidates of a response, with absent levels read
  as empty; \<open>response_parts\<close> above looks at the first candidate only.
\<close>

definition candidate_parts :: "candidate \<Rightarrow> part list" where
  "candidate_parts c =
     (case content c of
        None \<Rightarrow> []
      | Some ct \<Rightarrow> (case parts ct of None \<Rightarrow> [] | Some ps \<Rightarrow> ps))"

definition all_parts :: "response \<Rightarrow> part list" where
  "all_parts r =
     (case candidates r of None \<Rightarrow> [] | Some cs \<Rightarrow> concat (map candidate_parts cs))"

text \<open>
  An invariant of every session: the action is one of the options; a spinner excludes a
  result image; and a spinner or a result image is there only with both slots filled and a
  key configured, and then the only message that can stand beside it is the one of the
  image intake.
\<close>

definition session_inv :: "env \<Rightarrow> app_state \<Rightarrow> bool" where
  "session_inv e s \<longleftrightarrow>
     selectedAction s \<in> set action_options \<and>
     (isLoading s \<longrightarrow> generatedImage s = None) \<and>
     (isLoading s \<or> generatedImage s \<noteq> None \<longrightarrow>
        image1 s \<noteq> None \<and> image2 s \<noteq> None \<and> truthy (API_KEY e) \<and>
        (error s = None \<or> error s = Some read_failure_message))"

text \<open>
  The events that end a call, and the states of a call in flight: the spinner is on, no
  result image is set, and the only message that can be there is the one of the image
  intake.
\<close>

fun settles :: "event \<Rightarrow> bool" where
  "settles (Settle r) = True"
| "settles ev = False"

definition in_flight :: "app_state \<Rightarrow> bool" where
  "in_flight s \<longleftrightarrow>
     isLoading s \<and> generatedImage s = None \<and>
     (error s = None \<or> error s = Some read_failure_message)"

subsection \<open>Sample inputs\<close>

definition example_env :: env where
  "example_env = \<lparr>API_KEY = Some ''key''\<rparr>"

definition example_png :: string where
  "example_png = ''data:image/png;base64,QUJD''"

definition example_jpeg :: string where
  "example_jpeg = ''data:image/jpeg;base64,REVG''"

definition example_uploads :: "event list" where
  "example_uploads =
     [ImageChange Slot1 ''image/png'' (LoadEnd (Some example_png)),
      ImageChange Slot2 ''image/jpeg'' (LoadEnd (Some example_jpeg))]"

text \<open>The state after \<open>example_uploads\<close>: both slots filled, nothing requested yet.\<close>

definition example_ready :: app_state where
  "example_ready =
     \<lparr>image1 = Some \<lparr>base64 = Some ''QUJD'', mimeType = ''image/png''\<rparr>,
      image2 = Some \<lparr>base64 = Some ''REVG'', mimeType = ''image/jpeg''\<rparr>,
      selectedAction = ''shaking hands'',
      generatedImage = None, isLoading = False, error = None\<rparr>"

definition text_part :: part where
  "text_part = \<lparr>inlineData = None, text' = Some ''Here is your image''\<rparr>"

definition image_part :: "string \<Rightarrow> part" where
  "image_part d = \<lparr>inlineData = Some \<lparr>data = d, mimeType = ''image/png''\<rparr>, text' = None\<rparr>"

text \<open>
  A response with a text part before two image parts in the first candidate, and a second
  candidate with an image of its own.
\<close>

definition example_response :: response where
  "example_response =
     \<lparr>candidates = Some
        [\<lparr>content = Some \<lparr>parts = Some [text_part, image_part ''Zm9v'', image_part ''YmFy'']\<rparr>\<rparr>,
         \<lparr>content = Some \<lparr>parts = Some [image_part ''YmF6'']\<rparr>\<rparr>]\<rparr>"

section \<open>Basic facts\<close>

lemma action_options_nonempty: "a \<in> set action_options \<Longrightarrow> a \<noteq> []"
  by (auto simp: action_options_def)

lemma scan_parts_skip:
  "\<forall>q \<in> set pre. inlineData q = None \<Longrightarrow> scan_parts (pre @ ps) = scan_parts ps"
  by (induction pre) simp_all

lemma scan_parts_None_iff:
  "scan_parts ps = None \<longleftrightarrow> (\<forall>p \<in> set ps. inlineData p = None)"
  by (induction ps) (auto split: option.splits)

lemma settle_no_image:
  assumes "\<forall>p \<in> set (response_parts resp). inlineData p = None"
  shows "handleGenerate_settle (Resolves resp) s = s\<lparr>error := Some no_image_message, isLoading := False\<rparr>"
  using assms by (simp add: handleGenerate_settle_def scan_parts_None_iff [symmetric])

lemma init_inv: "session_inv e init_state"
  by (simp add: session_inv_def init_state_def action_options_def)

lemma handleImageChange_inv:
  "session_inv e s \<Longrightarrow> session_inv e (fst (handleImageChange ft ro sl s))"
  by (cases sl; cases ro)
     (auto simp: session_inv_def handleImageChange_def read_failure_message_def
           split: option.splits)

lemma dispatch_inv:
  "session_inv e s \<Longrightarrow> \<not> generate_disabled s \<Longrightarrow> session_inv e (fst (handleGenerate_dispatch e s))"
  by (auto simp: session_inv_def handleGenerate_dispatch_def generate_disabled_def
           dest: action_options_nonempty split: option.splits)

lemma settle_inv:
  "session_inv e s \<Longrightarrow> isLoading s \<Longrightarrow> session_inv e (handleGenerate_settle r s)"
  by (auto simp: session_inv_def handleGenerate_settle_def split: api_result.splits option.splits)

lemma apply_event_inv:
  "session_inv e s \<Longrightarrow> apply_event e ev s = Some s' \<Longrightarrow> session_inv e s'"
proof (cases ev)
  case (ImageChange sl ft ro)
  assume "session_inv e s" "apply_event e ev s = Some s'"
  with ImageChange show ?thesis using handleImageChange_inv [of e s ft ro sl] by auto
next
  case (SelectAction v)
  assume "session_inv e s" "apply_event e ev s = Some s'"
  with SelectAction show ?thesis by (auto simp: session_inv_def split: if_splits)
next
  case ClickGenerate
  assume "session_inv e s" "apply_event e ev s = Some s'"
  with ClickGenerate show ?thesis using dispatch_inv [of e s] by (auto split: if_splits)
next
  case (Settle r)
  assume "session_inv e s" "apply_event e ev s = Some s'"
  with Settle show ?thesis using settle_inv [of e s r] by (auto split: if_splits)
qed

lemma run_inv: "session_inv e s \<Longrightarrow> run e evs s = Some s' \<Longrightarrow> session_inv e s'"
proof (induction evs arbitrary: s)
  case Nil
  then show ?case by simp
next
  case (Cons ev evs)
  then obtain s1 where "apply_event e ev s = Some s1" and "run e evs s1 = Some s'"
    by (auto split: option.splits)
  with Cons show ?case using apply_event_inv by blast
qed

lemma reachable_inv: "reachable e s \<Longrightarrow> session_inv e s"
  unfolding reachable_def using run_inv init_inv by blast

lemma run_example_uploads: "run e example_uploads init_state = Some example_ready"
  by (simp add: example_uploads_def example_ready_def init_state_def handleImageChange_def
        example_png_def example_jpeg_def index1_def)

lemma reachable_init: "reachable e init_state"
  unfolding reachable_def by (rule exI [of _ "[]"]) simp

lemma reachable_example_ready: "reachable e example_ready"
  unfolding reachable_def using run_example_uploads by blast

lemma response_parts_first:
  "response_parts r =
     (case candidates r of None \<Rightarrow> [] | Some [] \<Rightarrow> [] | Some (c # _) \<Rightarrow> candidate_parts c)"
  by (simp add: response_parts_def candidate_parts_def split: option.splits list.splits)

lemma response_parts_subset: "set (response_parts r) \<subseteq> set (all_parts r)"
proof (cases "candidates r")
  case None
  then show ?thesis by (simp add: response_parts_first)
next
  case (Some cs)
  then show ?thesis by (cases cs) (simp_all add: response_parts_first all_parts_def)
qed

lemma dispatch_passes:
  assumes "image1 s = Some img1" and "image2 s = Some img2"
    and "selectedAction s \<noteq> []" and "truthy (API_KEY e)"
  shows "handleGenerate_dispatch e s =
           (s\<lparr>isLoading := True, error := None, generatedImage := None\<rparr>,
            Some (build_request img1 img2 (selectedAction s)))"
  using assms by (simp add: handleGenerate_dispatch_def)

lemma handleImageChange_in_flight:
  "in_flight s \<Longrightarrow> in_flight (fst (handleImageChange ft ro sl s))"
  by (cases sl; cases ro)
     (auto simp: in_flight_def handleImageChange_def split: option.splits)

lemma in_flight_step:
  assumes "in_flight s" and "\<not> settles ev" and "apply_event e ev s = Some s'"
  shows "in_flight s'"
proof (cases ev)
  case (ImageChange sl ft ro)
  with assms show ?thesis using handleImageChange_in_flight [of s ft ro sl] by auto
next
  case (SelectAction v)
  with assms show ?thesis by (auto simp: in_flight_def split: if_splits)
next
  case ClickGenerate
  with assms show ?thesis by (simp add: in_flight_def generate_disabled_def)
next
  case (Settle r)
  with assms show ?thesis by simp
qed

lemma in_flight_run:
  "in_flight s \<Longrightarrow> \<forall>ev \<in> set evs. \<not> settles ev \<Longrightarrow> run e evs s = Some s' \<Longrightarrow> in_flight s'"
proof (induction evs arbitrary: s)
  case Nil
  then show ?case by simp
next
  case (Cons ev evs)
  from Cons.prems(3) obtain s1 where
    step: "apply_event e ev s = Some s1" and rest: "run e evs s1 = Some s'"
    by (auto split: option.splits)
  from Cons.prems(1,2) step have "in_flight s1"
    using in_flight_step [of s ev e s1] by simp
  with Cons.IH [of s1] Cons.prems(2) rest show ?case by simp
qed

lemma settle_in_flight:
  assumes "in_flight s"
  shows "\<not> isLoading (handleGenerate_settle r s)
       \<and> (\<exists>x. outcomes (handleGenerate_settle r s) = [Success x]
            \<or> outcomes (handleGenerate_settle r s) = [Failure x]
            \<or> outcomes (handleGenerate_settle r s) = [Success x, Failure read_failure_message])
       \<and> (error s = None \<longrightarrow>
            (\<exists>x. outcomes (handleGenerate_settle r s) = [Success x]
               \<or> outcomes (handleGenerate_settle r s) = [Failure x]))"
  using assms
  by (auto simp: in_flight_def handleGenerate_settle_def outcomes_def
           split: api_result.splits option.splits)

section \<open>The claims\<close>

text \<open>
  C1. When the first candidate of the response has an inline-image part, the image set by
  \<open>handleGenerate\<close> is the data URL \<open>data:<mimeType>;base64,<data>\<close> built from the
  fields of the first such part \<open>p\<close>, whatever state the call settles in. The parts after
  \<open>p\<close> and the other candidates play no role: the response cut down to the parts up to
  \<open>p\<close> of the first candidate gives the same state. With no error message pending, the
  outcome is that Success alone.
\<close>

theorem first_inline_image_is_result:
  assumes "candidates resp = Some (c # cs)"
    and "content c = Some ct"
    and "parts ct = Some (pre @ p # post)"
    and "\<forall>q \<in> set pre. inlineData q = None"
    and "inlineData p = Some b"
  shows "handleGenerate_settle (Resolves resp) s =
           s\<lparr>generatedImage := Some (''data:'' @ blob.mimeType b @ '';base64,'' @ data b),
             isLoading := False\<rparr>
       \<and> handleGenerate_settle (Resolves resp) s =
           handleGenerate_settle
             (Resolves \<lparr>candidates = Some [\<lparr>content = Some \<lparr>parts = Some (pre @ [p])\<rparr>\<rparr>]\<rparr>) s
       \<and> (error s = None \<longrightarrow>
            outcomes (handleGenerate_settle (Resolves resp) s) =
              [Success (''data:'' @ blob.mimeType b @ '';base64,'' @ data b)])"
proof -
  let ?url = "''data:'' @ blob.mimeType b @ '';base64,'' @ data b"
  have parts_eq: "response_parts resp = pre @ p # post"
    using assms(1-3) by (simp add: response_parts_def)
  have found: "scan_parts (pre @ p # post) = Some ?url"
    using assms(4,5) by (simp add: scan_parts_skip image_url_def)
  have found': "scan_parts (pre @ [p]) = Some ?url"
    using assms(4,5) by (simp add: scan_parts_skip image_url_def)
  have 1: "handleGenerate_settle (Resolves resp) s =
             s\<lparr>generatedImage := Some ?url, isLoading := False\<rparr>"
    using parts_eq found by (simp add: handleGenerate_settle_def)
  have 2: "handleGenerate_settle
             (Resolves \<lparr>candidates = Some [\<lparr>content = Some \<lparr>parts = Some (pre @ [p])\<rparr>\<rparr>]\<rparr>) s =
             s\<lparr>generatedImage := Some ?url, isLoading := False\<rparr>"
    using found' by (simp add: handleGenerate_settle_def response_parts_def)
  have 3: "error s = None \<longrightarrow>
             outcomes (s\<lparr>generatedImage := Some ?url, isLoading := False\<rparr>) = [Success ?url]"
    by (simp add: outcomes_def)
  from 1 2 3 show ?thesis by simp
qed

theorem first_inline_image_is_result_witness:
  "handleGenerate_settle (Resolves example_response) (example_ready\<lparr>isLoading := True\<rparr>) =
     example_ready\<lparr>generatedImage := Some ''data:image/png;base64,Zm9v''\<rparr>
   \<and> outcomes (handleGenerate_settle (Resolves example_response)
        (example_ready\<lparr>isLoading := True\<rparr>)) = [Success ''data:image/png;base64,Zm9v'']"
proof -
  let ?c = "\<lparr>content = Some \<lparr>parts = Some [text_part, image_part ''Zm9v'', image_part ''YmFy'']\<rparr>\<rparr>"
  let ?cs = "[\<lparr>content = Some \<lparr>parts = Some [image_part ''YmF6'']\<rparr>\<rparr>]"
  let ?ct = "\<lparr>parts = Some [text_part, image_part ''Zm9v'', image_part ''YmFy'']\<rparr>"
  let ?b = "\<lparr>data = ''Zm9v'', mimeType = ''image/png''\<rparr>"
  have h1: "candidates example_response = Some (?c # ?cs)"
    by (simp add: example_response_def)
  have h2: "content ?c = Some ?ct" by simp
  have h3: "parts ?ct = Some ([text_part] @ image_part ''Zm9v'' # [image_part ''YmFy''])" by simp
  have h4: "\<forall>q \<in> set [text_part]. inlineData q = None" by (simp add: text_part_def)
  have h5: "inlineData (image_part ''Zm9v'') = Some ?b" by (simp add: image_part_def)
  have h6: "error (example_ready\<lparr>isLoading := True\<rparr>) = None"
    by (simp add: example_ready_def)
  note r = first_inline_image_is_result
    [OF h1 h2 h3 h4 h5, of "example_ready\<lparr>isLoading := True\<rparr>"]
  from r [THEN conjunct1] r [THEN conjunct2, THEN conjunct2] h6
  show ?thesis by (simp add: example_ready_def)
qed

text \<open>
  C2. A dispatch with an empty image slot or without a configured key hands no request to
  the network, so the whole call is over with the dispatch, whatever the backend would
  answer. It changes nothing but the error message, which it sets to a non-empty text; at
  a reachable state the outcome is then that Failure alone. With an empty slot the message
  is exactly "Please upload both images and select an action."
\<close>

theorem dispatch_guard_failure:
  assumes "image1 s = None \<or> image2 s = None \<or> \<not> truthy (API_KEY e)"
  shows "snd (handleGenerate_dispatch e s) = None
       \<and> (\<forall>backend. handleGenerate e backend s = fst (handleGenerate_dispatch e s))
       \<and> (\<exists>msg. msg \<noteq> [] \<and> fst (handleGenerate_dispatch e s) = s\<lparr>error := Some msg\<rparr>
              \<and> (reachable e s \<longrightarrow>
                    outcomes (fst (handleGenerate_dispatch e s)) = [Failure msg]))
       \<and> (image1 s = None \<or> image2 s = None \<longrightarrow>
            error (fst (handleGenerate_dispatch e s)) =
              Some ''Please upload both images and select an action.'')"
proof -
  have quiet: "reachable e s \<Longrightarrow> \<not> isLoading s \<and> generatedImage s = None"
    using assms reachable_inv [of e s] by (auto simp: session_inv_def)
  have pure: "reachable e s \<longrightarrow> outcomes (s\<lparr>error := Some msg\<rparr>) = [Failure msg]" for msg
    using quiet by (auto simp: outcomes_def)
  have core: ?thesis
    if d: "handleGenerate_dispatch e s = (s\<lparr>error := Some m\<rparr>, None)"
      and ne: "m \<noteq> []"
      and lit: "image1 s = None \<or> image2 s = None \<longrightarrow>
                m = ''Please upload both images and select an action.''"
    for m
  proof -
    have c1: "snd (handleGenerate_dispatch e s) = None"
      using d by simp
    have c2: "\<forall>backend. handleGenerate e backend s = fst (handleGenerate_dispatch e s)"
      using d by (simp add: handleGenerate_def)
    have c3: "\<exists>msg. msg \<noteq> [] \<and> fst (handleGenerate_dispatch e s) = s\<lparr>error := Some msg\<rparr>
              \<and> (reachable e s \<longrightarrow>
                    outcomes (fst (handleGenerate_dispatch e s)) = [Failure msg])"
      using d ne pure [of m] by (intro exI [of _ m]) simp
    have c4: "image1 s = None \<or> image2 s = None \<longrightarrow>
            error (fst (handleGenerate_dispatch e s)) =
              Some ''Please upload both images and select an action.''"
      using d lit by simp
    from c1 c2 c3 c4 show ?thesis by (intro conjI)
  qed
  show ?thesis
  proof (cases "missing_inputs s")
    case True
    then have "handleGenerate_dispatch e s = (s\<lparr>error := Some missing_inputs_message\<rparr>, None)"
      by (auto simp: missing_inputs_def handleGenerate_dispatch_def split: option.splits)
    then show ?thesis
      by (intro core [of missing_inputs_message]) (simp_all add: missing_inputs_message_def)
  next
    case False
    with assms have nokey: "\<not> truthy (API_KEY e)" and both: "\<not> (image1 s = None \<or> image2 s = None)"
      by (auto simp: missing_inputs_def)
    from False nokey
    have "handleGenerate_dispatch e s = (s\<lparr>error := Some missing_key_message\<rparr>, None)"
      by (auto simp: missing_inputs_def handleGenerate_dispatch_def split: option.splits)
    then show ?thesis using both
      by (intro core [of missing_key_message]) (simp_all add: missing_key_message_def)
  qed
qed

theorem dispatch_guard_failure_witness:
  "snd (handleGenerate_dispatch example_env init_state) = None
   \<and> outcomes (fst (handleGenerate_dispatch example_env init_state)) =
       [Failure ''Please upload both images and select an action.'']
   \<and> snd (handleGenerate_dispatch \<lparr>API_KEY = None\<rparr> example_ready) = None
   \<and> (\<exists>msg. outcomes (fst (handleGenerate_dispatch \<lparr>API_KEY = None\<rparr> example_ready)) =
         [Failure msg])"
proof -
  have h1: "image1 init_state = None \<or> image2 init_state = None \<or> \<not> truthy (API_KEY example_env)"
    by (simp add: init_state_def)
  have h2: "image1 example_ready = None \<or> image2 example_ready = None
              \<or> \<not> truthy (API_KEY \<lparr>API_KEY = None\<rparr>)"
    by (simp add: truthy_def)
  have i: "image1 init_state = None \<or> image2 init_state = None" by (simp add: init_state_def)
  note a = dispatch_guard_failure [OF h1]
  note b = dispatch_guard_failure [OF h2]
  from a obtain msg where m: "fst (handleGenerate_dispatch example_env init_state) =
        init_state\<lparr>error := Some msg\<rparr>"
      "outcomes (fst (handleGenerate_dispatch example_env init_state)) = [Failure msg]"
    using reachable_init [of example_env] by blast
  from a i have "error (fst (handleGenerate_dispatch example_env init_state)) =
      Some ''Please upload both images and select an action.''" by blast
  with m have 1: "outcomes (fst (handleGenerate_dispatch example_env init_state)) =
       [Failure ''Please upload both images and select an action.'']" by simp
  from b have 2: "\<exists>msg. outcomes (fst (handleGenerate_dispatch \<lparr>API_KEY = None\<rparr> example_ready)) =
         [Failure msg]"
    using reachable_example_ready [of "\<lparr>API_KEY = None\<rparr>"] by blast
  from a b 1 2 show ?thesis by blast
qed

text \<open>
  C3. When no part of any candidate of the response carries inline image data, the settled
  call sets the error message to exactly "The model did not return an image. Please try a
  different prompt or images." and ends the loading phase. With no result image in the
  state, as after every dispatch, the outcome is that Failure alone.
\<close>

theorem no_inline_image_is_failure:
  assumes "\<forall>p \<in> set (all_parts resp). inlineData p = None"
  shows "handleGenerate_settle (Resolves resp) s =
           s\<lparr>error := Some ''The model did not return an image. Please try a different prompt or images.'',
             isLoading := False\<rparr>
       \<and> (generatedImage s = None \<longrightarrow>
            outcomes (handleGenerate_settle (Resolves resp) s) =
              [Failure ''The model did not return an image. Please try a different prompt or images.''])"
proof -
  have "\<forall>p \<in> set (response_parts resp). inlineData p = None"
    using assms response_parts_subset [of resp] by blast
  then have "handleGenerate_settle (Resolves resp) s =
      s\<lparr>error := Some no_image_message, isLoading := False\<rparr>"
    by (rule settle_no_image)
  then show ?thesis by (simp add: no_image_message_def outcomes_def)
qed

theorem no_inline_image_is_failure_witness:
  "outcomes (handleGenerate_settle
      (Resolves \<lparr>candidates = Some [\<lparr>content = Some \<lparr>parts = Some [text_part]\<rparr>\<rparr>,
                                     \<lparr>content = None\<rparr>]\<rparr>)
      (example_ready\<lparr>isLoading := True\<rparr>)) =
     [Failure ''The model did not return an image. Please try a different prompt or images.'']"
proof -
  let ?resp = "\<lparr>candidates = Some [\<lparr>content = Some \<lparr>parts = Some [text_part]\<rparr>\<rparr>,
                                     \<lparr>content = None\<rparr>]\<rparr>"
  have h: "\<forall>p \<in> set (all_parts ?resp). inlineData p = None"
    by (simp add: all_parts_def candidate_parts_def text_part_def)
  have g: "generatedImage (example_ready\<lparr>isLoading := True\<rparr>) = None"
    by (simp add: example_ready_def)
  from no_inline_image_is_failure [OF h, of "example_ready\<lparr>isLoading := True\<rparr>", THEN conjunct2] g
  show ?thesis by blast
qed

text \<open>
  C4, as stated: once a call settles, the outcome is exactly one of Success or Failure.
  Only the button is disabled while a call is in flight, not the file inputs. A file whose
  read throws during the call sets the error message, and the settling call that finds an
  image does not clear it: the result image and the message are shown together.
\<close>

theorem settled_call_counterexample:
  "map_option outcomes
     (run example_env (example_uploads @ [ClickGenerate]) init_state) = Some [Loading]
   \<and> map_option outcomes
     (run example_env
        (example_uploads @
         [ClickGenerate, ImageChange Slot1 ''image/png'' Throws,
          Settle (Resolves example_response)])
        init_state) =
     Some [Success ''data:image/png;base64,Zm9v'', Failure ''Failed to read image file.'']"
  by (simp add: example_uploads_def init_state_def handleImageChange_def
        example_png_def example_jpeg_def index1_def generate_disabled_def
        handleGenerate_dispatch_def example_env_def truthy_def
        handleGenerate_settle_def response_parts_def example_response_def
        text_part_def image_part_def image_url_def read_failure_message_def outcomes_def)

text \<open>
  C4, amended. With both slots filled, a non-empty action (each of the three options is
  one) and a key configured, the dispatch starts the request and shows Loading alone. The
  state stays Loading through every event that can happen before the call settles. Once
  the call settles, on any branch, Loading is gone and the outcome is a Success or a
  Failure: exactly one of the two, except that a Success image stands beside the message
  "Failed to read image file." when a file read threw while the call was in flight. With
  no such message pending, and so for a call with nothing in between, it is exactly one.
\<close>

theorem call_leaves_loading:
  assumes "image1 s = Some img1" and "image2 s = Some img2"
    and "selectedAction s \<noteq> []" and "truthy (API_KEY e)"
  shows "handleGenerate_dispatch e s =
           (s\<lparr>isLoading := True, error := None, generatedImage := None\<rparr>,
            Some (build_request img1 img2 (selectedAction s)))
       \<and> outcomes (fst (handleGenerate_dispatch e s)) = [Loading]
       \<and> (\<forall>backend. \<exists>x. outcomes (handleGenerate e backend s) = [Success x]
                 \<or> outcomes (handleGenerate e backend s) = [Failure x])
       \<and> (\<forall>evs s2 r.
             (\<forall>ev \<in> set evs. \<not> settles ev) \<and>
             run e evs (fst (handleGenerate_dispatch e s)) = Some s2 \<longrightarrow>
               isLoading s2
             \<and> \<not> isLoading (handleGenerate_settle r s2)
             \<and> (\<exists>x. outcomes (handleGenerate_settle r s2) = [Success x]
                  \<or> outcomes (handleGenerate_settle r s2) = [Failure x]
                  \<or> outcomes (handleGenerate_settle r s2) =
                      [Success x, Failure ''Failed to read image file.''])
             \<and> (error s2 = None \<longrightarrow>
                  (\<exists>x. outcomes (handleGenerate_settle r s2) = [Success x]
                     \<or> outcomes (handleGenerate_settle r s2) = [Failure x])))"
proof -
  let ?s1 = "s\<lparr>isLoading := True, error := None, generatedImage := None\<rparr>"
  have d: "handleGenerate_dispatch e s =
             (?s1, Some (build_request img1 img2 (selectedAction s)))"
    using assms by (rule dispatch_passes)
  have fl: "in_flight ?s1" by (simp add: in_flight_def)
  have a: "outcomes (fst (handleGenerate_dispatch e s)) = [Loading]"
    by (simp add: d outcomes_def)
  have b: "\<exists>x. outcomes (handleGenerate e backend s) = [Success x]
              \<or> outcomes (handleGenerate e backend s) = [Failure x]" for backend
  proof -
    have "handleGenerate e backend s =
            handleGenerate_settle (backend (build_request img1 img2 (selectedAction s))) ?s1"
      by (simp add: handleGenerate_def d)
    moreover have "error ?s1 = None" by simp
    ultimately show ?thesis
      using settle_in_flight [OF fl, of "backend (build_request img1 img2 (selectedAction s))"]
      by simp
  qed
  have c: "isLoading s2
         \<and> \<not> isLoading (handleGenerate_settle r s2)
         \<and> (\<exists>x. outcomes (handleGenerate_settle r s2) = [Success x]
              \<or> outcomes (handleGenerate_settle r s2) = [Failure x]
              \<or> outcomes (handleGenerate_settle r s2) =
                  [Success x, Failure ''Failed to read image file.''])
         \<and> (error s2 = None \<longrightarrow>
              (\<exists>x. outcomes (handleGenerate_settle r s2) = [Success x]
                 \<or> outcomes (handleGenerate_settle r s2) = [Failure x]))"
    if quiet: "\<forall>ev \<in> set evs. \<not> settles ev"
      and run: "run e evs (fst (handleGenerate_dispatch e s)) = Some s2"
    for evs s2 r
  proof -
    from run have "run e evs ?s1 = Some s2" by (simp add: d)
    with fl quiet have fl2: "in_flight s2" by (rule in_flight_run)
    then have "isLoading s2" by (simp add: in_flight_def)
    with settle_in_flight [OF fl2, of r] show ?thesis
      by (simp add: read_failure_message_def)
  qed
  from d a b c show ?thesis by blast
qed

theorem call_leaves_loading_witness:
  "outcomes (fst (handleGenerate_dispatch example_env
       (example_ready\<lparr>selectedAction := ''saluting each other''\<rparr>))) = [Loading]
   \<and> run example_env [ImageChange Slot2 ''image/webp'' Throws]
       (fst (handleGenerate_dispatch example_env
          (example_ready\<lparr>selectedAction := ''saluting each other''\<rparr>))) =
     Some (example_ready\<lparr>selectedAction := ''saluting each other'', isLoading := True,
                          error := Some ''Failed to read image file.''\<rparr>)
   \<and> \<not> isLoading (handleGenerate_settle (Rejects ''fetch failed'')
       (example_ready\<lparr>selectedAction := ''saluting each other'', isLoading := True,
                       error := Some ''Failed to read image file.''\<rparr>))
   \<and> (\<exists>x. outcomes (handleGenerate example_env (\<lambda>req. Resolves example_response)
              (example_ready\<lparr>selectedAction := ''saluting each other''\<rparr>)) = [Success x]
        \<or> outcomes (handleGenerate example_env (\<lambda>req. Resolves example_response)
              (example_ready\<lparr>selectedAction := ''saluting each other''\<rparr>)) = [Failure x])"
proof -
  let ?s = "example_ready\<lparr>selectedAction := ''saluting each other''\<rparr>"
  let ?s2 = "example_ready\<lparr>selectedAction := ''saluting each other'', isLoading := True,
                          error := Some ''Failed to read image file.''\<rparr>"
  let ?evs = "[ImageChange Slot2 ''image/webp'' Throws]"
  have h1: "image1 ?s = Some \<lparr>base64 = Some ''QUJD'', mimeType = ''image/png''\<rparr>"
    by (simp add: example_ready_def)
  have h2: "image2 ?s = Some \<lparr>base64 = Some ''REVG'', mimeType = ''image/jpeg''\<rparr>"
    by (simp add: example_ready_def)
  have h3: "selectedAction ?s \<noteq> []" by simp
  have h4: "truthy (API_KEY example_env)" by (simp add: example_env_def truthy_def)
  note r = call_leaves_loading [OF h1 h2 h3 h4]
  have q: "\<forall>ev \<in> set ?evs. \<not> settles ev" by simp
  have d: "fst (handleGenerate_dispatch example_env ?s) =
             ?s\<lparr>isLoading := True, error := None, generatedImage := None\<rparr>"
    using r [THEN conjunct1] by simp
  have run: "run example_env ?evs (fst (handleGenerate_dispatch example_env ?s)) = Some ?s2"
    unfolding d
    by (simp add: handleImageChange_def read_failure_message_def example_ready_def)
  from r q run have "\<not> isLoading (handleGenerate_settle (Rejects ''fetch failed'') ?s2)"
    by blast
  with r run show ?thesis by blast
qed

text \<open>
  C5, as stated: at every reachable state exactly one outcome variant is active. The page
  keeps the outcome in three independent variables, and the image intake writes its message
  into \<open>error\<close> without touching the other two. After a successful fusion, a file whose
  read throws leaves the result image and the message side by side.
\<close>

theorem outcome_exclusive_counterexample:
  "map_option outcomes
     (run example_env
        (example_uploads @
         [ClickGenerate, Settle (Resolves example_response),
          ImageChange Slot1 ''image/png'' Throws])
        init_state) =
   Some [Success ''data:image/png;base64,Zm9v'', Failure ''Failed to read image file.'']"
  by (simp add: example_uploads_def init_state_def handleImageChange_def
        example_png_def example_jpeg_def index1_def generate_disabled_def
        handleGenerate_dispatch_def example_env_def truthy_def
        handleGenerate_settle_def response_parts_def example_response_def
        text_part_def image_part_def image_url_def read_failure_message_def outcomes_def)

text \<open>
  C5, amended. At every reachable state exactly one outcome variant is active, except that
  the message of the image intake, "Failed to read image file.", may stand beside Loading
  or beside a Success image. Loading and a Success image never occur together, and no
  message of \<open>handleGenerate\<close> stands beside either.
\<close>

theorem reachable_outcomes:
  assumes "reachable e s"
  shows "length (outcomes s) = 1
       \<or> outcomes s = [Loading, Failure ''Failed to read image file.'']
       \<or> (\<exists>url. outcomes s = [Success url, Failure ''Failed to read image file.''])"
proof -
  from assms have inv: "session_inv e s" by (rule reachable_inv)
  show ?thesis
  proof (cases "isLoading s \<or> generatedImage s \<noteq> None")
    case False
    then show ?thesis by (auto simp: outcomes_def split: option.splits)
  next
    case True
    with inv have err: "error s = None \<or> error s = Some ''Failed to read image file.''"
      and excl: "isLoading s \<longrightarrow> generatedImage s = None"
      by (auto simp: session_inv_def read_failure_message_def)
    from True err excl show ?thesis
      by (auto simp: outcomes_def split: option.splits)
  qed
qed

theorem reachable_outcomes_witness:
  "outcomes (init_state\<lparr>error := Some ''Failed to read image file.''\<rparr>) =
     [Failure ''Failed to read image file.'']
   \<and> length (outcomes (init_state\<lparr>error := Some ''Failed to read image file.''\<rparr>)) = 1"
proof -
  have "run example_env [ImageChange Slot2 ''image/webp'' Throws] init_state =
          Some (init_state\<lparr>error := Some ''Failed to read image file.''\<rparr>)"
    by (simp add: handleImageChange_def read_failure_message_def)
  then have h: "reachable example_env (init_state\<lparr>error := Some ''Failed to read image file.''\<rparr>)"
    unfolding reachable_def by blast
  from reachable_outcomes [OF h] show ?thesis
    by (simp add: outcomes_def init_state_def)
qed

text \<open>
  C6. A dispatch that starts a request puts the state into Loading whatever the outcome
  before it: \<open>isLoading\<close> is set and the previous result image and error message are both
  cleared in the same step, so the outcome is Loading alone.
\<close>

theorem dispatch_resets_outcome:
  assumes "snd (handleGenerate_dispatch e s) \<noteq> None"
  shows "fst (handleGenerate_dispatch e s) =
           s\<lparr>isLoading := True, error := None, generatedImage := None\<rparr>
       \<and> outcomes (fst (handleGenerate_dispatch e s)) = [Loading]"
proof -
  have "fst (handleGenerate_dispatch e s) =
          s\<lparr>isLoading := True, error := None, generatedImage := None\<rparr>"
    using assms by (auto simp: handleGenerate_dispatch_def split: option.splits if_splits)
  then show ?thesis by (simp add: outcomes_def)
qed

theorem dispatch_resets_outcome_witness:
  "outcomes (example_ready\<lparr>generatedImage := Some ''data:image/png;base64,Zm9v'',
                           error := Some ''Failed to read image file.''\<rparr>) =
     [Success ''data:image/png;base64,Zm9v'', Failure ''Failed to read image file.'']
   \<and> outcomes (fst (handleGenerate_dispatch example_env
        (example_ready\<lparr>generatedImage := Some ''data:image/png;base64,Zm9v'',
                        error := Some ''Failed to read image file.''\<rparr>))) = [Loading]"
proof -
  let ?s = "example_ready\<lparr>generatedImage := Some ''data:image/png;base64,Zm9v'',
                          error := Some ''Failed to read image file.''\<rparr>"
  have h: "snd (handleGenerate_dispatch example_env ?s) \<noteq> None"
    by (simp add: handleGenerate_dispatch_def example_ready_def example_env_def truthy_def)
  have "outcomes ?s =
     [Success ''data:image/png;base64,Zm9v'', Failure ''Failed to read image file.'']"
    by (simp add: outcomes_def example_ready_def)
  with dispatch_resets_outcome [OF h] show ?thesis by blast
qed

text \<open>
  C7. The request handed to the network has three parts in this order: the inline data of
  image 1 (its base64 text and MIME type), the inline data of image 2, and the text prompt.
  The prompt is the fixed text with the selected action inserted unchanged, and the only
  response modality asked for is \<open>IMAGE\<close>.
\<close>

theorem request_shape:
  assumes "handleGenerate_dispatch e s = (s1, Some req)"
  shows "\<exists>img1 img2.
           image1 s = Some img1 \<and> image2 s = Some img2
         \<and> contents_parts req =
             [InlineData \<lparr>data = base64 img1, mimeType = image_payload.mimeType img1\<rparr>,
              InlineData \<lparr>data = base64 img2, mimeType = image_payload.mimeType img2\<rparr>,
              Text (prompt_prefix @ selectedAction s @ prompt_suffix)]
         \<and> config_responseModalities req = [IMAGE]"
  using assms
  by (auto simp: handleGenerate_dispatch_def build_request_def fileToGenerativePart_def
        prompt_def split: option.splits if_splits)

theorem request_shape_witness:
  "\<exists>s1 req. handleGenerate_dispatch example_env example_ready = (s1, Some req)
     \<and> contents_parts req =
         [InlineData \<lparr>data = Some ''QUJD'', mimeType = ''image/png''\<rparr>,
          InlineData \<lparr>data = Some ''REVG'', mimeType = ''image/jpeg''\<rparr>,
          Text (prompt_prefix @ ''shaking hands'' @ prompt_suffix)]
     \<and> config_responseModalities req = [IMAGE]"
proof -
  obtain s1 req where d: "handleGenerate_dispatch example_env example_ready = (s1, Some req)"
    by (simp add: handleGenerate_dispatch_def example_ready_def example_env_def truthy_def)
  from request_shape [OF d] have
    "contents_parts req =
         [InlineData \<lparr>data = Some ''QUJD'', mimeType = ''image/png''\<rparr>,
          InlineData \<lparr>data = Some ''REVG'', mimeType = ''image/jpeg''\<rparr>,
          Text (prompt_prefix @ ''shaking hands'' @ prompt_suffix)]
     \<and> config_responseModalities req = [IMAGE]"
    by (auto simp: example_ready_def)
  with d show ?thesis by blast
qed

text \<open>
  The \<open>catch\<close> block (lines 76-79): when reading the file throws inside the \<open>try\<close> block,
  the intake sets the error message to "Failed to read image file." and returns normally;
  it fills no slot and leaves both slots, the result image, the loading flag and the
  selected action as they were.
\<close>

lemma read_throw_sets_message:
  "handleImageChange file_type Throws sl s =
     (s\<lparr>error := Some ''Failed to read image file.''\<rparr>, None)
   \<and> image1 (fst (handleImageChange file_type Throws sl s)) = image1 s
   \<and> image2 (fst (handleImageChange file_type Throws sl s)) = image2 s
   \<and> generatedImage (fst (handleImageChange file_type Throws sl s)) = generatedImage s
   \<and> isLoading (fst (handleImageChange file_type Throws sl s)) = isLoading s
   \<and> selectedAction (fst (handleImageChange file_type Throws sl s)) = selectedAction s"
  by (simp add: handleImageChange_def read_failure_message_def)

text \<open>
  C8. The claim asks that every failed read surfaces the failure message. The code does so
  only for what is thrown inside the \<open>try\<close> block. A read that fails later ends with the
  \<open>loadend\<close> event and a \<open>null\<close> result; the \<open>onloadend\<close> callback (lines 71-74) runs
  outside the \<open>try\<close> block, \<open>split\<close> on \<open>null\<close> throws a \<open>TypeError\<close> that nothing catches,
  and the state is left as it was, with no message. The synchronous path, by contrast,
  sets the message.
\<close>

theorem read_failure_unreported:
  "handleImageChange ''image/png'' (LoadEnd None) Slot1 example_ready =
     (example_ready, Some TypeError)
   \<and> error (fst (handleImageChange ''image/png'' (LoadEnd None) Slot1 example_ready)) = None
   \<and> error (fst (handleImageChange ''image/png'' Throws Slot1 example_ready)) =
       Some ''Failed to read image file.''"
  by (simp add: handleImageChange_def read_failure_message_def example_ready_def)

text \<open>
  C9. When the response has no \<open>candidates\<close>, or an empty list of them, or a first candidate
  without \<open>content\<close>, or content without \<open>parts\<close> or with an empty list of parts, the scan
  runs over the empty list and the call settles with the no-image message, not with the
  message of the \<open>catch\<close> block. The candidates after the first are arbitrary here: their
  parts are not looked at.
\<close>

theorem absent_levels_scan_empty:
  assumes "candidates resp = None \<or> candidates resp = Some []
         \<or> (\<exists>c cs. candidates resp = Some (c # cs) \<and>
               (content c = None
                \<or> (\<exists>ct. content c = Some ct \<and> (parts ct = None \<or> parts ct = Some []))))"
  shows "response_parts resp = []
       \<and> handleGenerate_settle (Resolves resp) s =
           s\<lparr>error := Some ''The model did not return an image. Please try a different prompt or images.'',
             isLoading := False\<rparr>"
proof -
  have e: "response_parts resp = []"
    using assms by (auto simp: response_parts_def)
  then have "\<forall>p \<in> set (response_parts resp). inlineData p = None" by simp
  then have "handleGenerate_settle (Resolves resp) s =
      s\<lparr>error := Some no_image_message, isLoading := False\<rparr>"
    by (rule settle_no_image)
  with e show ?thesis by (simp add: no_image_message_def)
qed

theorem absent_levels_scan_empty_witness:
  "handleGenerate_settle
     (Resolves \<lparr>candidates = Some [\<lparr>content = None\<rparr>,
                                    \<lparr>content = Some \<lparr>parts = Some [image_part ''YmF6'']\<rparr>\<rparr>]\<rparr>)
     (example_ready\<lparr>isLoading := True\<rparr>) =
   example_ready\<lparr>error := Some ''The model did not return an image. Please try a different prompt or images.''\<rparr>"
proof -
  let ?resp = "\<lparr>candidates = Some [\<lparr>content = None\<rparr>,
                                    \<lparr>content = Some \<lparr>parts = Some [image_part ''YmF6'']\<rparr>\<rparr>]\<rparr>"
  have "candidates ?resp =
          Some (\<lparr>content = None\<rparr> # [\<lparr>content = Some \<lparr>parts = Some [image_part ''YmF6'']\<rparr>\<rparr>])
        \<and> content \<lparr>content = None\<rparr> = None"
    by simp
  then have h: "candidates ?resp = None \<or> candidates ?resp = Some []
         \<or> (\<exists>c cs. candidates ?resp = Some (c # cs) \<and>
               (content c = None
                \<or> (\<exists>ct. content c = Some ct \<and> (parts ct = None \<or> parts ct = Some []))))"
    by blast
  from absent_levels_scan_empty [OF h, of "example_ready\<lparr>isLoading := True\<rparr>", THEN conjunct2]
  show ?thesis by (simp add: example_ready_def)
qed

text \<open>
  C10. The selected action starts as "shaking hands" and is, at every reachable state, one
  of the three option values, hence not empty. So with both slots filled the condition of
  line 83 is false and the dispatch does not produce the missing-inputs message.
\<close>

theorem action_never_empty:
  assumes "reachable e s"
  shows "selectedAction init_state = ''shaking hands''
       \<and> selectedAction s \<in> {''shaking hands'', ''hugging each other'', ''saluting each other''}
       \<and> selectedAction s \<noteq> []
       \<and> (image1 s \<noteq> None \<and> image2 s \<noteq> None \<longrightarrow>
            \<not> missing_inputs s
            \<and> error (fst (handleGenerate_dispatch e s)) \<noteq>
                Some ''Please upload both images and select an action.'')"
proof -
  from assms have "session_inv e s" by (rule reachable_inv)
  then have opt: "selectedAction s \<in> set action_options" by (simp add: session_inv_def)
  then have ne: "selectedAction s \<noteq> []" by (rule action_options_nonempty)
  have a: "selectedAction init_state = ''shaking hands''" by (simp add: init_state_def)
  have b: "selectedAction s \<in> {''shaking hands'', ''hugging each other'', ''saluting each other''}"
    using opt by (simp add: action_options_def)
  have c: "image1 s \<noteq> None \<and> image2 s \<noteq> None \<longrightarrow>
            \<not> missing_inputs s
            \<and> error (fst (handleGenerate_dispatch e s)) \<noteq>
                Some ''Please upload both images and select an action.''"
    using ne
    by (auto simp: missing_inputs_def handleGenerate_dispatch_def missing_key_message_def
             split: option.splits)
  from a b ne c show ?thesis by (intro conjI)
qed

theorem action_never_empty_witness:
  "selectedAction example_ready = ''shaking hands''
   \<and> \<not> missing_inputs example_ready
   \<and> error (fst (handleGenerate_dispatch example_env example_ready)) \<noteq>
       Some ''Please upload both images and select an action.''"
proof -
  have h: "reachable example_env example_ready" by (rule reachable_example_ready)
  have i: "image1 example_ready \<noteq> None \<and> image2 example_ready \<noteq> None"
    by (simp add: example_ready_def)
  have s: "selectedAction example_ready = ''shaking hands''" by (simp add: example_ready_def)
  from action_never_empty [OF h] i s show ?thesis by blast
qed

end
